theory Spec2Isabelle
  imports Complex_Main
begin

section \<open>The JavaScript runtime the component runs on\<close>

text \<open>
  \<^verbatim>\<open>CSVDateSplitter.js\<close> is a single React component. Its logic rests on a few
  built-ins of the host runtime: \<^verbatim>\<open>String.prototype.trim\<close>, \<^verbatim>\<open>toLowerCase\<close>,
  \<^verbatim>\<open>split\<close>, \<^verbatim>\<open>Number\<close> and \<^verbatim>\<open>Date\<close>. They are modelled after ECMA-262.
  What ECMA-262 leaves to the implementation, or what needs floating point to
  state, is a field of the record \<open>runtime\<close>, so that every theorem
  quantified over the runtime holds whatever the host does there.

  Strings are \<open>char list\<close>; a \<open>char\<close> stands for the code point of the same
  number, so the model covers the strings over U+0000..U+00FF. That range is
  closed under \<^verbatim>\<open>toLowerCase\<close> and \<^verbatim>\<open>trim\<close>.
\<close>

subsection \<open>Strings\<close>

definition isWhiteSpace :: "char \<Rightarrow> bool" where
  \<comment> \<open>WhiteSpace and LineTerminator of ECMA-262 below U+0100: TAB, LF, VT, FF, CR, SP, NBSP\<close>
  "isWhiteSpace c = (of_char c \<in> {9, 10, 11, 12, 13, 32, 160 :: nat})"

definition trim :: "string \<Rightarrow> string" where
  "trim s = rev (dropWhile isWhiteSpace (rev (dropWhile isWhiteSpace s)))"

definition toLowerChar :: "char \<Rightarrow> char" where
  \<comment> \<open>A..Z, and U+00C0..U+00DE except the multiplication sign U+00D7\<close>
  "toLowerChar c =
     (let n = (of_char c :: nat)
      in if (65 \<le> n \<and> n \<le> 90) \<or> (192 \<le> n \<and> n \<le> 222 \<and> n \<noteq> 215)
         then char_of (n + 32) else c)"

definition toLowerCase :: "string \<Rightarrow> string" where
  "toLowerCase s = map toLowerChar s"

fun split :: "char \<Rightarrow> string \<Rightarrow> string list" where
  \<comment> \<open>\<^verbatim>\<open>s.split(sep)\<close> for a separator of one character; \<^verbatim>\<open>''.split('/')\<close> is \<^verbatim>\<open>['']\<close>\<close>
  "split sep [] = [[]]"
| "split sep (c # cs) =
     (if c = sep then [] # split sep cs
      else (case split sep cs of
              [] \<Rightarrow> [[c]]
            | p # ps \<Rightarrow> (c # p) # ps))"

definition isDigit :: "char \<Rightarrow> bool" where
  "isDigit c = (48 \<le> (of_char c :: nat) \<and> (of_char c :: nat) \<le> 57)"

definition digitVal :: "char \<Rightarrow> nat" where
  "digitVal c = of_char c - 48"

definition decimal :: "string \<Rightarrow> nat" where
  "decimal s = foldl (\<lambda>a c. 10 * a + digitVal c) 0 s"

definition isDigits :: "string \<Rightarrow> bool" where
  "isDigits s = (s \<noteq> [] \<and> list_all isDigit s)"

subsection \<open>Numbers\<close>

text \<open>
  A Number is NaN, an infinity or a finite value. Finite values are rationals
  and arithmetic on them is exact: the rounding of IEEE doubles is not
  modelled, which changes nothing on the integers below \<open>2 ^ 53\<close>.
\<close>

datatype jsnum = NaN | NegInf | PosInf | Fin rat

fun num_lt :: "jsnum \<Rightarrow> jsnum \<Rightarrow> bool" where
  \<comment> \<open>\<^verbatim>\<open>a < b\<close>: false as soon as one side is NaN\<close>
  "num_lt NaN _ = False"
| "num_lt _ NaN = False"
| "num_lt (Fin a) (Fin b) = (a < b)"
| "num_lt NegInf NegInf = False"
| "num_lt NegInf _ = True"
| "num_lt _ NegInf = False"
| "num_lt PosInf _ = False"
| "num_lt _ PosInf = True"

fun num_add :: "jsnum \<Rightarrow> rat \<Rightarrow> jsnum" where
  \<comment> \<open>\<^verbatim>\<open>a + k\<close> and \<^verbatim>\<open>a - k\<close> for a finite constant \<open>k\<close>\<close>
  "num_add (Fin a) k = Fin (a + k)"
| "num_add n k = n"

definition ToInteger :: "rat \<Rightarrow> int" where
  \<comment> \<open>ToIntegerOrInfinity on a finite value: rounding towards zero\<close>
  "ToInteger r = (if 0 \<le> r then \<lfloor>r\<rfloor> else \<lceil>r\<rceil>)"

record runtime =
  tza :: int
    \<comment> \<open>offset of local time from UTC in milliseconds, constant: a zone without daylight saving\<close>
  parseOther :: "string \<Rightarrow> int option"
    \<comment> \<open>\<^verbatim>\<open>Date.parse\<close> on every string that is not a date-only ISO string of a real day\<close>
  numberOther :: "string \<Rightarrow> jsnum"
    \<comment> \<open>\<^verbatim>\<open>Number\<close> on every string that does not trim to the empty string or to decimal digits\<close>

definition Number :: "runtime \<Rightarrow> string \<Rightarrow> jsnum" where
  "Number rt s =
     (let t = trim s
      in if t = [] then Fin 0
         else if list_all isDigit t then Fin (of_int (int (decimal t)))
         else numberOther rt s)"

subsection \<open>Time values and Date objects\<close>

text \<open>
  A time value is a number of milliseconds since 1970-01-01T00:00Z, or NaN
  (\<open>None\<close>). A Date object holds one time value; one that holds NaN prints as
  \<^verbatim>\<open>Invalid Date\<close>.
\<close>

datatype date = Date (valueOf: "int option")

definition msPerDay :: int where
  "msPerDay = 86400000"

definition maxTime :: int where
  "maxTime = 8640000000000000"

definition Day :: "int \<Rightarrow> int" where
  "Day t = t div msPerDay"

definition DayFromYear :: "int \<Rightarrow> int" where
  "DayFromYear y =
     365 * (y - 1970) + (y - 1969) div 4 - (y - 1901) div 100 + (y - 1601) div 400"

definition InLeapYear :: "int \<Rightarrow> bool" where
  "InLeapYear y = (y mod 4 = 0 \<and> (y mod 100 \<noteq> 0 \<or> y mod 400 = 0))"

definition monthStart :: "int \<Rightarrow> int \<Rightarrow> int" where
  \<comment> \<open>the day within year \<open>y\<close> of the first day of month \<open>mn\<close>, counted from 0\<close>
  "monthStart y mn =
     (let leap = (if InLeapYear y then 1 else 0)
      in if mn = 0 then 0 else if mn = 1 then 31
         else [59, 90, 120, 151, 181, 212, 243, 273, 304, 334] ! nat (mn - 2) + leap)"

definition DaysInMonth :: "int \<Rightarrow> int \<Rightarrow> int" where
  \<comment> \<open>the length of month \<open>mn\<close> (from 0) of year \<open>y\<close>\<close>
  "DaysInMonth y mn =
     (if mn = 1 then (if InLeapYear y then 29 else 28)
      else if mn \<in> {3, 5, 8, 10} then 30 else 31)"

fun MakeDay :: "jsnum \<Rightarrow> jsnum \<Rightarrow> jsnum \<Rightarrow> int option" where
  "MakeDay (Fin year) (Fin month) (Fin dt) =
     (let y = ToInteger year; m = ToInteger month; d = ToInteger dt;
          ym = y + m div 12; mn = m mod 12;
          t = (DayFromYear ym + monthStart ym mn) * msPerDay
      in if \<bar>t\<bar> > maxTime then None else Some (Day t + d - 1))"
| "MakeDay _ _ _ = None"

definition MakeTime :: "int \<Rightarrow> int \<Rightarrow> int \<Rightarrow> int \<Rightarrow> int" where
  "MakeTime h m s milli = h * 3600000 + m * 60000 + s * 1000 + milli"

definition MakeDate :: "int option \<Rightarrow> int \<Rightarrow> int option" where
  "MakeDate day time = (case day of None \<Rightarrow> None | Some d \<Rightarrow> Some (d * msPerDay + time))"

definition TimeClip :: "int option \<Rightarrow> int option" where
  "TimeClip time =
     (case time of None \<Rightarrow> None
      | Some t \<Rightarrow> if \<bar>t\<bar> > maxTime then None else Some t)"

definition LocalTime :: "runtime \<Rightarrow> int \<Rightarrow> int" where
  "LocalTime rt t = t + tza rt"

definition UTC :: "runtime \<Rightarrow> int option \<Rightarrow> int option" where
  "UTC rt t = map_option (\<lambda>x. x - tza rt) t"

definition MakeFullYear :: "jsnum \<Rightarrow> jsnum" where
  "MakeFullYear year =
     (case year of
        Fin r \<Rightarrow> (let truncated = ToInteger r
                  in if 0 \<le> truncated \<and> truncated \<le> 99 then Fin (of_int (1900 + truncated))
                     else Fin (of_int truncated))
      | other \<Rightarrow> other)"

definition isoDateOnly :: "string \<Rightarrow> int option" where
  \<comment> \<open>\<^verbatim>\<open>YYYY-MM-DD\<close> naming a real day: midnight UTC of that day\<close>
  "isoDateOnly s =
     (if length s = 10 \<and> s ! 4 = CHR ''-'' \<and> s ! 7 = CHR ''-''
         \<and> list_all isDigit (take 4 s) \<and> list_all isDigit (take 2 (drop 5 s))
         \<and> list_all isDigit (drop 8 s)
      then (let y = int (decimal (take 4 s)); m = int (decimal (take 2 (drop 5 s)));
                d = int (decimal (drop 8 s))
            in if 1 \<le> m \<and> m \<le> 12 \<and> 1 \<le> d \<and> d \<le> DaysInMonth y (m - 1)
               then Some ((DayFromYear y + monthStart y (m - 1) + d - 1) * msPerDay)
               else None)
      else None)"

definition Date_parse :: "runtime \<Rightarrow> string \<Rightarrow> int option" where
  "Date_parse rt s = (case isoDateOnly s of Some t \<Rightarrow> Some t | None \<Rightarrow> parseOther rt s)"

definition newDate :: "runtime \<Rightarrow> string \<Rightarrow> date" where
  \<comment> \<open>\<^verbatim>\<open>new Date(string)\<close>\<close>
  "newDate rt s = Date (TimeClip (Date_parse rt s))"

definition newDateYMD :: "runtime \<Rightarrow> jsnum \<Rightarrow> jsnum \<Rightarrow> jsnum \<Rightarrow> date" where
  \<comment> \<open>\<^verbatim>\<open>new Date(year, monthIndex, day)\<close>: local midnight, overflow carried over\<close>
  "newDateYMD rt year month dt =
     (let yr = MakeFullYear year;
          finalDate = MakeDate (MakeDay yr month dt) (MakeTime 0 0 0 0)
      in Date (TimeClip (UTC rt finalDate)))"

definition setHours :: "runtime \<Rightarrow> date \<Rightarrow> int \<Rightarrow> int \<Rightarrow> int \<Rightarrow> int \<Rightarrow> date" where
  "setHours rt d h m s milli =
     (case valueOf d of
        None \<Rightarrow> Date None
      | Some tv \<Rightarrow>
          (let t = LocalTime rt tv;
               dt = MakeDate (Some (Day t)) (MakeTime h m s milli)
           in Date (TimeClip (UTC rt dt))))"

definition date_lt :: "date \<Rightarrow> date \<Rightarrow> bool" where
  \<comment> \<open>\<^verbatim>\<open>a < b\<close> on Date objects compares the time values; false when one is NaN\<close>
  "date_lt a b =
     (case (valueOf a, valueOf b) of (Some x, Some y) \<Rightarrow> x < y | _ \<Rightarrow> False)"

section \<open>The date normalizer\<close>

definition isValidDate :: "date \<Rightarrow> bool" where
  \<comment> \<open>\<^verbatim>\<open>date instanceof Date && !isNaN(date)\<close>\<close>
  "isValidDate d = (valueOf d \<noteq> None)"

definition parseDate :: "runtime \<Rightarrow> string option \<Rightarrow> date option" where
  \<comment> \<open>the cell is a string or \<^verbatim>\<open>undefined\<close> (\<open>None\<close>); the result \<open>None\<close> is \<^verbatim>\<open>null\<close>\<close>
  "parseDate rt dateString =
     (case dateString of
        None \<Rightarrow> None
      | Some s \<Rightarrow>
          if s = [] then None
          else let parsedDate = newDate rt s
               in if isValidDate parsedDate then Some parsedDate
                  else let parts = split (CHR ''/'') s
                       in if length parts = 3
                          then (let month = Number rt (parts ! 0);
                                    day = Number rt (parts ! 1);
                                    year = Number rt (parts ! 2);
                                    year = (if num_lt year (Fin 100) then num_add year 2000 else year);
                                    parsedDate = newDateYMD rt year (num_add month (- 1)) day
                                in if isValidDate parsedDate then Some parsedDate else None)
                          else None)"

section \<open>The component\<close>

text \<open>
  A record of the decoded table is an object from column name to cell; the
  cells are strings, and a column the record lacks reads as \<^verbatim>\<open>undefined\<close>
  (\<open>None\<close>). The decoders (PapaParse, SheetJS) and the download are outside
  the component: a file carries what each decoder answers for it, and the
  state keeps what was handed to \<^verbatim>\<open>saveAs\<close> and to \<^verbatim>\<open>alert\<close>.
\<close>

type_synonym row = "string \<rightharpoonup> string"

datatype message =
    NoMessage
  | SelectBothDates
  | EndBeforeStart
  | UnsupportedFileType
  | PleaseUploadFile
  | CSVColumnMissing string
  | ExcelColumnMissing string
  | CSVParseFailed
  | ExcelReadFailed
  | NoValidData

text \<open>
  The messages of the source, in the order of the constructors:
  the empty string;
  \<^verbatim>\<open>Please select both start and end dates.\<close>;
  \<^verbatim>\<open>End Date cannot be earlier than Start Date.\<close>;
  \<^verbatim>\<open>Unsupported file type. Please upload a CSV or Excel file.\<close>;
  \<^verbatim>\<open>Please upload a file.\<close>;
  \<^verbatim>\<open>The CSV does not contain a "${dateColumn}" column. Please check the column name.\<close>;
  \<^verbatim>\<open>The Excel file does not contain a "${dateColumn}" column. Please check the column name.\<close>;
  \<^verbatim>\<open>Failed to parse CSV file. Please ensure it is a valid CSV.\<close>;
  \<^verbatim>\<open>Failed to read Excel file.\<close>;
  \<^verbatim>\<open>No valid data found within the specified date range.\<close>.
\<close>

record skippedRow =
  rowNumber :: nat
  reason :: string

datatype papaResult =
    PapaError
  | PapaComplete "row list" "string list"
    \<comment> \<open>\<^verbatim>\<open>result.data\<close> and \<^verbatim>\<open>result.meta.fields\<close>\<close>

datatype sheetResult =
    ReadError
    \<comment> \<open>the FileReader fails: \<^verbatim>\<open>reader.onerror\<close>\<close>
  | DecodeThrows
    \<comment> \<open>\<^verbatim>\<open>XLSX.read\<close> or \<^verbatim>\<open>sheet_to_json\<close> throws inside \<^verbatim>\<open>reader.onload\<close>\<close>
  | Worksheet "string option list list"
    \<comment> \<open>the first sheet as an array of arrays (\<^verbatim>\<open>header: 1\<close>); \<open>None\<close> is an empty cell\<close>

text \<open>
  SheetJS leaves an empty cell out of the array of its row: the array has a
  hole there, which \<^verbatim>\<open>map\<close> and \<^verbatim>\<open>forEach\<close> skip, which \<^verbatim>\<open>find\<close> visits as
  \<^verbatim>\<open>undefined\<close>, and which reads as \<^verbatim>\<open>undefined\<close>. The cells that are there are
  strings in this model; a sheet with numeric or boolean cells is outside it.
\<close>

record upload =
  name :: string
  papa :: papaResult
  sheet :: sheetResult

record state =
  "file" :: "upload option"
  startDate :: string
  endDate :: string
  dateColumn :: string
  error :: message
  processing :: bool
  processedCount :: nat
  skippedCount :: nat
  skippedRows :: "skippedRow list"
  totalRows :: nat
  saved :: "(string \<times> row list) list"
    \<comment> \<open>the calls of \<^verbatim>\<open>saveAs\<close>: file name and the rows of the sheet \<^verbatim>\<open>Filtered Data\<close>\<close>
  alerts :: "(nat \<times> nat) list"
    \<comment> \<open>the calls of \<^verbatim>\<open>alert\<close>: processed and skipped\<close>
  uncaught :: bool
    \<comment> \<open>a TypeError left a callback\<close>

definition handleDateColumnChange :: "string \<Rightarrow> state \<Rightarrow> state" where
  "handleDateColumnChange v st = st\<lparr>dateColumn := trim v\<rparr>"

definition resetCountsAndData :: "state \<Rightarrow> state" where
  "resetCountsAndData st =
     st\<lparr>processedCount := 0, skippedCount := 0, skippedRows := [], totalRows := 0\<rparr>"

definition handleFileChange :: "upload option \<Rightarrow> state \<Rightarrow> state" where
  "handleFileChange f st = resetCountsAndData (st\<lparr>error := NoMessage, file := f\<rparr>)"

definition validateDates :: "runtime \<Rightarrow> state \<Rightarrow> bool \<times> state" where
  "validateDates rt st =
     (if startDate st = [] \<or> endDate st = [] then (False, st\<lparr>error := SelectBothDates\<rparr>)
      else if date_lt (newDate rt (endDate st)) (newDate rt (startDate st))
           then (False, st\<lparr>error := EndBeforeStart\<rparr>)
           else (True, st))"

record counters =
  processed :: nat
  skipped :: nat
  skippedRowsLocal :: "skippedRow list"

fun arrayFilter :: "('a \<Rightarrow> nat \<Rightarrow> 's \<Rightarrow> bool \<times> 's) \<Rightarrow> 'a list \<Rightarrow> nat \<Rightarrow> 's \<Rightarrow> 'a list \<times> 's" where
  \<comment> \<open>\<^verbatim>\<open>Array.prototype.filter\<close> from index \<open>i\<close>, with a callback that updates the variables it captured\<close>
  "arrayFilter f [] i s = ([], s)"
| "arrayFilter f (x # xs) i s =
     (let (keep, s') = f x i s;
          (rest, s'') = arrayFilter f xs (i + 1) s'
      in (if keep then x # rest else rest, s''))"

definition rowCallback :: "runtime \<Rightarrow> string \<Rightarrow> date \<Rightarrow> date \<Rightarrow> row \<Rightarrow> nat \<Rightarrow> counters \<Rightarrow> bool \<times> counters" where
  "rowCallback rt actualDateColumn start endD row index c =
     (let dateString = row actualDateColumn;
          rowDate = parseDate rt dateString
      in if (case rowDate of None \<Rightarrow> True | Some d \<Rightarrow> date_lt d start \<or> date_lt endD d)
         then (False, c\<lparr>skipped := skipped c + 1,
                        skippedRowsLocal := skippedRowsLocal c @
                          [\<lparr>rowNumber = index + 2, reason = ''Date out of range or invalid format''\<rparr>]\<rparr>)
         else (True, c\<lparr>processed := processed c + 1\<rparr>))"

definition transferToExcel :: "runtime \<Rightarrow> row list \<Rightarrow> string \<Rightarrow> state \<Rightarrow> state" where
  "transferToExcel rt jsonData actualDateColumn st =
     (let start = setHours rt (newDate rt (startDate st)) 0 0 0 0;
          endD = setHours rt (newDate rt (endDate st)) 23 59 59 999;
          (validDateRows, c) =
             arrayFilter (rowCallback rt actualDateColumn start endD) jsonData 0
               \<lparr>processed = 0, skipped = 0, skippedRowsLocal = []\<rparr>;
          st1 = st\<lparr>processedCount := processed c, skippedCount := skipped c,
                   skippedRows := skippedRowsLocal c\<rparr>
      in if length validDateRows = 0 then st1\<lparr>error := NoValidData\<rparr>
         else st1\<lparr>saved := saved st1 @
                       [(''filtered_data_'' @ startDate st @ ''_to_'' @ endDate st @ ''.xlsx'',
                         validDateRows)],
                   alerts := alerts st1 @ [(processed c, skipped c)]\<rparr>)"

definition findHeader :: "string \<Rightarrow> string list \<Rightarrow> string option" where
  \<comment> \<open>\<^verbatim>\<open>headers.find((header) => header.trim().toLowerCase() === normalizedDateColumn)\<close>\<close>
  "findHeader normalizedDateColumn headers =
     find (\<lambda>header. toLowerCase (trim header) = normalizedDateColumn) headers"

definition processCSVFile :: "runtime \<Rightarrow> upload \<Rightarrow> state \<Rightarrow> state" where
  "processCSVFile rt f st =
     (let st1 = st\<lparr>processing := True\<rparr>
      in case papa f of
           PapaError \<Rightarrow> st1\<lparr>error := CSVParseFailed, processing := False\<rparr>
         | PapaComplete jsonData headers \<Rightarrow>
             (let st2 = st1\<lparr>totalRows := length jsonData\<rparr>;
                  normalizedDateColumn = toLowerCase (trim (dateColumn st));
                  actualDateColumn = findHeader normalizedDateColumn headers
              in case actualDateColumn of
                   None \<Rightarrow> st2\<lparr>error := CSVColumnMissing (dateColumn st), processing := False\<rparr>
                 | Some h \<Rightarrow>
                     if h = [] then st2\<lparr>error := CSVColumnMissing (dateColumn st), processing := False\<rparr>
                     else (transferToExcel rt jsonData h st2)\<lparr>processing := False\<rparr>))"

definition rowObject :: "string option list \<Rightarrow> string option list \<Rightarrow> row" where
  \<comment> \<open>\<^verbatim>\<open>headers.forEach((header, index) => { obj[header] = row[index]; })\<close>, holes skipped\<close>
  "rowObject headers r =
     foldl (\<lambda>obj (header, index).
              case header of
                None \<Rightarrow> obj
              | Some h \<Rightarrow> obj(h := (if index < length r then r ! index else None)))
       Map.empty (zip headers [0 ..< length headers])"

fun findHeaderSparse :: "string \<Rightarrow> string option list \<Rightarrow> string option option" where
  \<comment> \<open>\<^verbatim>\<open>headers.find(...)\<close> on an array with holes: \<open>None\<close> is the TypeError of
      \<^verbatim>\<open>header.trim()\<close> on a hole met before a match\<close>
  "findHeaderSparse normalizedDateColumn [] = Some None"
| "findHeaderSparse normalizedDateColumn (None # rest) = None"
| "findHeaderSparse normalizedDateColumn (Some header # rest) =
     (if toLowerCase (trim header) = normalizedDateColumn then Some (Some header)
      else findHeaderSparse normalizedDateColumn rest)"

definition processExcelFile :: "runtime \<Rightarrow> upload \<Rightarrow> state \<Rightarrow> state" where
  "processExcelFile rt f st =
     (let st1 = st\<lparr>processing := True\<rparr>
      in case sheet f of
           ReadError \<Rightarrow> st1\<lparr>error := ExcelReadFailed, processing := False\<rparr>
         | DecodeThrows \<Rightarrow> st1\<lparr>uncaught := True\<rparr>
         | Worksheet [] \<Rightarrow> st1\<lparr>uncaught := True\<rparr>
         | Worksheet (first # rest) \<Rightarrow>
             (let headers = map (map_option (\<lambda>header. toLowerCase (trim header))) first;
                  jsonData = map (rowObject headers) rest;
                  st2 = st1\<lparr>totalRows := length jsonData\<rparr>;
                  normalizedDateColumn = toLowerCase (trim (dateColumn st))
              in case findHeaderSparse normalizedDateColumn headers of
                   None \<Rightarrow> st2\<lparr>uncaught := True\<rparr>
                 | Some None \<Rightarrow>
                     st2\<lparr>error := ExcelColumnMissing (dateColumn st), processing := False\<rparr>
                 | Some (Some h) \<Rightarrow>
                     if h = [] then st2\<lparr>error := ExcelColumnMissing (dateColumn st), processing := False\<rparr>
                     else (transferToExcel rt jsonData h st2)\<lparr>processing := False\<rparr>))"

definition processFile :: "runtime \<Rightarrow> state \<Rightarrow> state" where
  "processFile rt st =
     (let st1 = resetCountsAndData (st\<lparr>error := NoMessage\<rparr>);
          (ok, st2) = validateDates rt st1
      in if \<not> ok then st2
         else case file st2 of
                None \<Rightarrow> st2\<lparr>error := PleaseUploadFile\<rparr>
              | Some f \<Rightarrow>
                  (let fileType = toLowerCase (last (split (CHR ''.'') (name f)))
                   in if fileType = ''csv'' then processCSVFile rt f st2
                      else if fileType = ''xlsx'' \<or> fileType = ''xls'' then processExcelFile rt f st2
                      else st2\<lparr>error := UnsupportedFileType\<rparr>))"

section \<open>Notions used to state the properties\<close>

text \<open>
  The test of the filter callback, \<^verbatim>\<open>!rowDate || rowDate < start || rowDate > end\<close>,
  the entry it pushes, and the two bounds that \<^verbatim>\<open>transferToExcel\<close> computes.
\<close>

definition skipRow :: "runtime \<Rightarrow> string \<Rightarrow> date \<Rightarrow> date \<Rightarrow> row \<Rightarrow> bool" where
  "skipRow rt actualDateColumn start endD r =
     (case parseDate rt (r actualDateColumn) of
        None \<Rightarrow> True
      | Some d \<Rightarrow> date_lt d start \<or> date_lt endD d)"

definition skipEntry :: "nat \<Rightarrow> skippedRow" where
  "skipEntry index = \<lparr>rowNumber = index + 2, reason = ''Date out of range or invalid format''\<rparr>"

definition rangeStart :: "runtime \<Rightarrow> string \<Rightarrow> date" where
  "rangeStart rt startDay = setHours rt (newDate rt startDay) 0 0 0 0"

definition rangeEnd :: "runtime \<Rightarrow> string \<Rightarrow> date" where
  "rangeEnd rt endDay = setHours rt (newDate rt endDay) 23 59 59 999"

definition keptRows :: "runtime \<Rightarrow> string \<Rightarrow> date \<Rightarrow> date \<Rightarrow> row list \<Rightarrow> row list" where
  "keptRows rt col start endD jsonData = filter (\<lambda>r. \<not> skipRow rt col start endD r) jsonData"

definition skippedIndices :: "runtime \<Rightarrow> string \<Rightarrow> date \<Rightarrow> date \<Rightarrow> row list \<Rightarrow> nat list" where
  "skippedIndices rt col start endD jsonData =
     filter (\<lambda>index. skipRow rt col start endD (jsonData ! index)) [0 ..< length jsonData]"

text \<open>
  Calendar days. \<open>civilDay y m d\<close> is the number of the day, counted from
  1970-01-01, that lies \<open>d - 1\<close> days after the first day of month \<open>m\<close>
  (from 1) of year \<open>y\<close>; a month outside 1..12 moves the year, a day
  outside the month runs into the neighbouring months.
\<close>

definition civilDay :: "int \<Rightarrow> int \<Rightarrow> int \<Rightarrow> int" where
  "civilDay y m d =
     DayFromYear (y + (m - 1) div 12) + monthStart (y + (m - 1) div 12) ((m - 1) mod 12) + d - 1"

definition inTimeRange :: "int \<Rightarrow> bool" where
  "inTimeRange t = (\<bar>t\<bar> \<le> maxTime)"

definition localMidnight :: "runtime \<Rightarrow> int \<Rightarrow> int" where
  \<comment> \<open>the time value of 00:00:00.000 local time on a day\<close>
  "localMidnight rt day = day * msPerDay - tza rt"

definition localEndOfDay :: "runtime \<Rightarrow> int \<Rightarrow> int" where
  \<comment> \<open>the time value of 23:59:59.999 local time on a day\<close>
  "localEndOfDay rt day = day * msPerDay + 86399999 - tza rt"

section \<open>Two runtimes and some inputs\<close>

text \<open>
  Two hosts to evaluate the component on. Both read the date-only ISO strings
  of real days as ECMA-262 prescribes. \<open>strict tz\<close> is a host whose
  \<^verbatim>\<open>Date.parse\<close> rejects every other string. \<open>browser tz\<close> follows V8 and
  SpiderMonkey on the strings \<^verbatim>\<open>month/day/year\<close> of decimal numbers whose first
  component is in 1..31: with the month in 1..12 and the day in 1..31 its
  \<^verbatim>\<open>Date.parse\<close> answers local midnight of that day, a year 0..49 standing
  for 2000..2049 and a year 50..99 for 1950..1999, and it rejects a month
  beyond 12 or a day beyond 31. It is not V8 elsewhere: V8 reads a slash
  string year first when the first component is beyond 31, carries over an
  ISO string of a day that does not exist, and knows more numerals in
  \<^verbatim>\<open>Number\<close> than the decimal digits; both hosts reject all of these. The
  inputs below stay clear of them: they hold date-only ISO strings of real
  days, strings \<^verbatim>\<open>month/day/year\<close> with a first component in 1..31, the
  empty string, and words without digits.
\<close>

definition legacySlash :: "int \<Rightarrow> string \<Rightarrow> int option" where
  "legacySlash tz s =
     (case split (CHR ''/'') s of
        [ms, ds, ys] \<Rightarrow>
          if isDigits ms \<and> isDigits ds \<and> isDigits ys
          then (let month = int (decimal ms); day = int (decimal ds); y = int (decimal ys);
                    year = (if y \<le> 49 then y + 2000 else if y \<le> 99 then y + 1900 else y)
                in if 1 \<le> month \<and> month \<le> 12 \<and> 1 \<le> day \<and> day \<le> 31
                   then Some ((DayFromYear year + monthStart year (month - 1) + day - 1) * msPerDay - tz)
                   else None)
          else None
      | _ \<Rightarrow> None)"

definition browser :: "int \<Rightarrow> runtime" where
  "browser tz = \<lparr>tza = tz, parseOther = legacySlash tz, numberOther = (\<lambda>s. NaN)\<rparr>"

definition strict :: "int \<Rightarrow> runtime" where
  "strict tz = \<lparr>tza = tz, parseOther = (\<lambda>s. None), numberOther = (\<lambda>s. NaN)\<rparr>"

definition bogota :: runtime where
  \<comment> \<open>a browser five hours west of Greenwich, in a zone without daylight saving\<close>
  "bogota = browser (- 18000000)"

definition initial :: state where
  \<comment> \<open>the \<^verbatim>\<open>useState\<close> defaults\<close>
  "initial = \<lparr>file = None, startDate = [], endDate = [], dateColumn = ''Date of Visit'',
     error = NoMessage, processing = False, processedCount = 0, skippedCount = 0,
     skippedRows = [], totalRows = 0, saved = [], alerts = [], uncaught = False\<rparr>"

definition csvOf :: "string list \<Rightarrow> row list \<Rightarrow> upload" where
  "csvOf headers jsonData =
     \<lparr>name = ''visits.csv'', papa = PapaComplete jsonData headers, sheet = ReadError\<rparr>"

definition january :: "string \<Rightarrow> upload \<Rightarrow> state" where
  \<comment> \<open>the range 2024-01-01 .. 2024-01-31 chosen in the two date inputs\<close>
  "january column f = initial\<lparr>file := Some f, startDate := ''2024-01-01'',
     endDate := ''2024-01-31'', dateColumn := column\<rparr>"

definition scenarioA :: upload where
  "scenarioA = csvOf [''Date'']
     [[''Date'' \<mapsto> ''2024-01-15''], [''Date'' \<mapsto> ''2024-02-01''], [''Date'' \<mapsto> ''13/40/2024'']]"

definition scenarioE :: upload where
  "scenarioE = csvOf [''Name'', ''Date'']
     [[''Name'' \<mapsto> ''a'', ''Date'' \<mapsto> ''2024-02-01''], [''Name'' \<mapsto> ''b'', ''Date'' \<mapsto> ''soon'']]"

definition lastDay :: upload where
  "lastDay = csvOf [''Date''] [[''Date'' \<mapsto> ''1/31/2024'']]"

definition dayBefore :: upload where
  "dayBefore = csvOf [''Date''] [[''Date'' \<mapsto> ''12/31/2023'']]"

definition scenarioC :: upload where
  "scenarioC = csvOf [''Date of Visit'', ''Name'']
     [[''Date of Visit'' \<mapsto> ''2024-01-15'', ''Name'' \<mapsto> ''a'']]"

definition unnamedColumn :: upload where
  \<comment> \<open>a file whose first column has no name: the header line \<^verbatim>\<open>,Date\<close>\<close>
  "unnamedColumn = csvOf ['''', ''Date''] [['''' \<mapsto> ''2024-01-15'', ''Date'' \<mapsto> ''x'']]"

definition scenarioD :: state where
  \<comment> \<open>a start day after the end day\<close>
  "scenarioD = (january ''Date'' scenarioA)\<lparr>startDate := ''2024-02-01''\<rparr>"

section \<open>The filter pass\<close>

lemma rowCallback_skip:
  "skipRow rt col s e r \<Longrightarrow>
   rowCallback rt col s e r i c =
     (False, c\<lparr>skipped := skipped c + 1, skippedRowsLocal := skippedRowsLocal c @ [skipEntry i]\<rparr>)"
  by (simp add: rowCallback_def skipRow_def skipEntry_def)

lemma rowCallback_keep:
  "\<not> skipRow rt col s e r \<Longrightarrow>
   rowCallback rt col s e r i c = (True, c\<lparr>processed := processed c + 1\<rparr>)"
  by (simp add: rowCallback_def skipRow_def)

lemma arrayFilter_rowCallback:
  "arrayFilter (rowCallback rt col s e) xs i c =
     (filter (\<lambda>r. \<not> skipRow rt col s e r) xs,
      c\<lparr>processed := processed c + length (filter (\<lambda>r. \<not> skipRow rt col s e r) xs),
        skipped := skipped c + length (filter (skipRow rt col s e) xs),
        skippedRowsLocal := skippedRowsLocal c @
           map (\<lambda>(j, r). skipEntry j) (filter (\<lambda>(j, r). skipRow rt col s e r) (enumerate i xs))\<rparr>)"
proof (induction xs arbitrary: i c)
  case Nil
  show ?case by simp
next
  case (Cons x xs)
  show ?case
  proof (cases "skipRow rt col s e x")
    case True
    then show ?thesis
      by (simp add: rowCallback_skip Cons.IH)
  next
    case False
    then show ?thesis
      by (simp add: rowCallback_keep Cons.IH)
  qed
qed

lemma enumerate_as_indices: "enumerate 0 xs = map (\<lambda>k. (k, xs ! k)) [0 ..< length xs]"
proof -
  have "enumerate 0 (map (\<lambda>k. xs ! k) [0 ..< length xs]) = map (\<lambda>k. (k, xs ! k)) [0 ..< length xs]"
    by (rule enumerate_map_upt)
  then show ?thesis by (simp add: map_nth)
qed

lemma skipped_entries_indices:
  "map (\<lambda>(j, r). skipEntry j) (filter (\<lambda>(j, r). P r) (enumerate 0 xs)) =
   map skipEntry (filter (\<lambda>j. P (xs ! j)) [0 ..< length xs])"
  by (simp add: enumerate_as_indices filter_map o_def)

lemma length_skipped_indices:
  "length (filter (\<lambda>j. P (xs ! j)) [0 ..< length xs]) = length (filter P xs)"
proof -
  have "length (filter P (map (\<lambda>j. xs ! j) [0 ..< length xs])) =
        length (filter (\<lambda>j. P (xs ! j)) [0 ..< length xs])"
    by (simp add: filter_map o_def)
  then show ?thesis by (simp add: map_nth)
qed

lemma transferToExcel_eq:
  "transferToExcel rt xs col st =
     (let kept = keptRows rt col (rangeStart rt (startDate st)) (rangeEnd rt (endDate st)) xs;
          sk = skippedIndices rt col (rangeStart rt (startDate st)) (rangeEnd rt (endDate st)) xs;
          st1 = st\<lparr>processedCount := length kept, skippedCount := length sk,
                   skippedRows := map skipEntry sk\<rparr>
      in if kept = [] then st1\<lparr>error := NoValidData\<rparr>
         else st1\<lparr>saved := saved st @
                       [(''filtered_data_'' @ startDate st @ ''_to_'' @ endDate st @ ''.xlsx'', kept)],
                   alerts := alerts st @ [(length kept, length sk)]\<rparr>)"
  by (simp add: transferToExcel_def arrayFilter_rowCallback keptRows_def skippedIndices_def
      rangeStart_def rangeEnd_def skipped_entries_indices length_skipped_indices Let_def)


lemma all_skipped:
  assumes "list_all (skipRow rt col s e) xs"
  shows "keptRows rt col s e xs = []" and "skippedIndices rt col s e xs = [0 ..< length xs]"
  using assms by (auto simp: keptRows_def skippedIndices_def list_all_iff filter_empty_conv)

lemma processCSVFile_resolved:
  assumes "papa f = PapaComplete jsonData headers"
    and "findHeader (toLowerCase (trim (dateColumn st))) headers = Some col"
    and "col \<noteq> []"
  shows "processCSVFile rt f st =
     (transferToExcel rt jsonData col (st\<lparr>processing := True, totalRows := length jsonData\<rparr>))
       \<lparr>processing := False\<rparr>"
  using assms by (simp add: processCSVFile_def Let_def)

lemma findHeader_None:
  "findHeader n headers = None \<longleftrightarrow> (\<forall>h \<in> set headers. toLowerCase (trim h) \<noteq> n)"
  by (auto simp: findHeader_def find_None_iff)

lemma findHeader_Some:
  "findHeader n headers = Some h \<longleftrightarrow>
     (\<exists>i < length headers. headers ! i = h \<and> toLowerCase (trim h) = n
        \<and> (\<forall>j < i. toLowerCase (trim (headers ! j)) \<noteq> n))"
  by (auto simp: findHeader_def find_Some_iff)

section \<open>Counts\<close>



section \<open>Row numbers\<close>

text \<open>
  Claim C9. The row numbers of the skip list are, in order, the indices
  (from 0) of the skipped records plus 2, whatever the number of skipped
  rows; every row number is at least 2.
\<close>

theorem row_numbers:
  "map rowNumber (skippedRows (transferToExcel rt jsonData col st))
     = map (\<lambda>index. index + 2)
         (skippedIndices rt col (rangeStart rt (startDate st)) (rangeEnd rt (endDate st)) jsonData)
   \<and> list_all (\<lambda>s. 2 \<le> rowNumber s) (skippedRows (transferToExcel rt jsonData col st))"
  by (simp add: transferToExcel_eq Let_def o_def skipEntry_def list_all_iff)

theorem row_numbers_witness:
  "skippedIndices (browser 0) ''Date'' (rangeStart (browser 0) ''2024-01-01'')
      (rangeEnd (browser 0) ''2024-01-31'')
      [[''Date'' \<mapsto> ''2024-01-15''], [''Date'' \<mapsto> ''2024-02-01''], [''Date'' \<mapsto> ''13/40/2024'']]
     = [1, 2]
   \<and> map rowNumber (skippedRows (transferToExcel (browser 0)
        [[''Date'' \<mapsto> ''2024-01-15''], [''Date'' \<mapsto> ''2024-02-01''], [''Date'' \<mapsto> ''13/40/2024'']]
        ''Date'' (january ''Date'' scenarioA)))
     = [3, 4]"
proof -
  let ?rows = "[[''Date'' \<mapsto> ''2024-01-15''], [''Date'' \<mapsto> ''2024-02-01''], [''Date'' \<mapsto> ''13/40/2024'']]"
  have d: "startDate (january ''Date'' scenarioA) = ''2024-01-01''"
    "endDate (january ''Date'' scenarioA) = ''2024-01-31''"
    by (simp_all add: january_def initial_def)
  have v: "skippedIndices (browser 0) ''Date'' (rangeStart (browser 0) ''2024-01-01'')
      (rangeEnd (browser 0) ''2024-01-31'') ?rows = [1, 2]"
    by code_simp
  show ?thesis
    using row_numbers [of "browser 0" ?rows "''Date''" "january ''Date'' scenarioA"] v
    by (simp add: d)
qed

section \<open>The normalizer answers a valid date or null\<close>

text \<open>
  Claim C10. On a cell that is a string or absent, \<open>parseDate\<close> returns
  \<^verbatim>\<open>null\<close> or a Date whose time value is not NaN, on every runtime: an
  \<^verbatim>\<open>Invalid Date\<close> never reaches the caller.
\<close>

theorem parseDate_valid_or_null:
  "parseDate rt cell = None \<or> (\<exists>t. parseDate rt cell = Some (Date (Some t)) \<and> isValidDate (Date (Some t)))"
proof (cases "parseDate rt cell")
  case None
  then show ?thesis by simp
next
  case (Some d)
  then have v: "isValidDate d"
    by (auto simp: parseDate_def Let_def split: option.splits if_splits)
  obtain tv where d: "d = Date tv" by (cases d)
  with v obtain t where "tv = Some t" by (auto simp: isValidDate_def)
  with Some d v show ?thesis by simp
qed

section \<open>Column resolution\<close>

text \<open>
  Claim C7, as amended. The claim says that no partial result is produced.
  The component records the total number of rows of the decoded file
  (\<^verbatim>\<open>setTotalRows\<close>, line 78) before it searches the column, and the summary
  shows it. So: when no header equals the requested name after trimming and
  lowercasing both, the operation ends with the column-not-found message
  carrying the requested name, and no record is processed: the processed and
  skipped counts and the skip list stay as they were, nothing is saved and
  nothing is alerted; of the result only the total count is set, to the
  length of the input.
\<close>

theorem column_not_found:
  assumes "papa f = PapaComplete jsonData headers"
    and "\<forall>h \<in> set headers. toLowerCase (trim h) \<noteq> toLowerCase (trim (dateColumn st))"
  shows "processCSVFile rt f st =
           st\<lparr>totalRows := length jsonData, error := CSVColumnMissing (dateColumn st),
              processing := False\<rparr>"
proof -
  have "findHeader (toLowerCase (trim (dateColumn st))) headers = None"
    using assms(2) by (simp add: findHeader_None)
  then show ?thesis using assms(1) by (simp add: processCSVFile_def Let_def)
qed

theorem column_not_found_witness:
  "papa scenarioC = PapaComplete [[''Date of Visit'' \<mapsto> ''2024-01-15'', ''Name'' \<mapsto> ''a'']]
                      [''Date of Visit'', ''Name'']
   \<and> list_all (\<lambda>h. toLowerCase (trim h) \<noteq> toLowerCase (trim ''visit date'')) [''Date of Visit'', ''Name'']
   \<and> processCSVFile (browser 0) scenarioC (january ''visit date'' scenarioC) =
        (january ''visit date'' scenarioC)
          \<lparr>totalRows := 1, error := CSVColumnMissing ''visit date'', processing := False\<rparr>"
proof -
  have h1: "papa scenarioC = PapaComplete [[''Date of Visit'' \<mapsto> ''2024-01-15'', ''Name'' \<mapsto> ''a'']]
                      [''Date of Visit'', ''Name'']"
    by (simp add: scenarioC_def csvOf_def)
  have h2: "list_all (\<lambda>h. toLowerCase (trim h) \<noteq> toLowerCase (trim ''visit date'')) [''Date of Visit'', ''Name'']"
    by code_simp
  have d: "dateColumn (january ''visit date'' scenarioC) = ''visit date''"
    by (simp add: january_def initial_def)
  have h2': "\<forall>h \<in> set [''Date of Visit'', ''Name''].
      toLowerCase (trim h) \<noteq> toLowerCase (trim (dateColumn (january ''visit date'' scenarioC)))"
    using h2 unfolding d by (simp add: list_all_iff)
  show ?thesis
    using h1 h2 column_not_found [OF h1 h2', of "browser 0"] by (simp add: d)
qed

text \<open>
  The claim as stated fails: in Scenario C the total count is 1 after the
  failure, while the processed and skipped counts are 0.
\<close>

theorem column_not_found_records_total:
  "error (processFile (browser 0) (january ''visit date'' scenarioC)) = CSVColumnMissing ''visit date''
   \<and> totalRows (january ''visit date'' scenarioC) = 0
   \<and> totalRows (processFile (browser 0) (january ''visit date'' scenarioC)) = 1
   \<and> processedCount (processFile (browser 0) (january ''visit date'' scenarioC)) = 0
   \<and> skippedCount (processFile (browser 0) (january ''visit date'' scenarioC)) = 0
   \<and> processedCount (processFile (browser 0) (january ''visit date'' scenarioC))
       + skippedCount (processFile (browser 0) (january ''visit date'' scenarioC))
       \<noteq> totalRows (processFile (browser 0) (january ''visit date'' scenarioC))"
  by code_simp

text \<open>
  The search of lines 80-83 trims and lowercases the requested name and each
  header and answers the first header that is then equal to the requested
  name; \<^verbatim>\<open>" date of visit "\<close> finds \<^verbatim>\<open>"Date of Visit"\<close>. When the header found
  is not the empty string, the filter runs on its column
  (\<open>processCSVFile_resolved\<close>).
\<close>

lemma column_resolution:
  "(findHeader (toLowerCase (trim requested)) headers = Some h \<longleftrightarrow>
      (\<exists>i < length headers. headers ! i = h
          \<and> toLowerCase (trim h) = toLowerCase (trim requested)
          \<and> (\<forall>j < i. toLowerCase (trim (headers ! j)) \<noteq> toLowerCase (trim requested))))
   \<and> (findHeader (toLowerCase (trim requested)) headers = None \<longleftrightarrow>
      (\<forall>h \<in> set headers. toLowerCase (trim h) \<noteq> toLowerCase (trim requested)))
   \<and> findHeader (toLowerCase (trim '' date of visit '')) (''Date of Visit'' # others) = Some ''Date of Visit''"
proof -
  have "toLowerCase (trim '' date of visit '') = toLowerCase (trim ''Date of Visit'')"
    by code_simp
  then have "findHeader (toLowerCase (trim '' date of visit '')) (''Date of Visit'' # others) = Some ''Date of Visit''"
    by (simp add: findHeader_def)
  then show ?thesis
    by (simp only: findHeader_Some findHeader_None simp_thms)
qed

lemma column_resolution_example:
  "findHeader (toLowerCase (trim '' date of visit '')) [''Name'', ''Date of Visit'', ''DATE OF VISIT'']
     = Some ''Date of Visit''
   \<and> (\<exists>i < 3. [''Name'', ''Date of Visit'', ''DATE OF VISIT''] ! i = ''Date of Visit''
         \<and> list_all (\<lambda>j. toLowerCase (trim ([''Name'', ''Date of Visit'', ''DATE OF VISIT''] ! j))
                          \<noteq> toLowerCase (trim '' date of visit '')) [0 ..< i])"
proof -
  let ?hs = "[''Name'', ''Date of Visit'', ''DATE OF VISIT'']"
  have a: "findHeader (toLowerCase (trim '' date of visit '')) ?hs = Some ''Date of Visit''"
    by code_simp
  from a column_resolution [of " '' date of visit ''" ?hs "''Date of Visit''" "[]"]
  obtain i where "i < length ?hs" "?hs ! i = ''Date of Visit''"
    "\<forall>j < i. toLowerCase (trim (?hs ! j)) \<noteq> toLowerCase (trim '' date of visit '')"
    by blast
  then have "i < 3 \<and> ?hs ! i = ''Date of Visit''
         \<and> list_all (\<lambda>j. toLowerCase (trim (?hs ! j)) \<noteq> toLowerCase (trim '' date of visit '')) [0 ..< i]"
    by (simp add: list_all_iff)
  then show ?thesis using a by blast
qed

text \<open>
  The test that follows the search, \<^verbatim>\<open>!actualDateColumn\<close>, is meant for the
  \<^verbatim>\<open>undefined\<close> of a search without match. It also holds for a header that
  was found and is the empty string: the operation then reports the column
  as missing.
\<close>

lemma empty_header_reported_missing:
  assumes "papa f = PapaComplete jsonData headers"
    and "findHeader (toLowerCase (trim (dateColumn st))) headers = Some []"
  shows "processCSVFile rt f st =
           st\<lparr>totalRows := length jsonData, error := CSVColumnMissing (dateColumn st),
              processing := False\<rparr>"
  using assms by (simp add: processCSVFile_def Let_def)

text \<open>
  Claim C4. For every header set and requested name, column resolution
  resolves to the first header that equals the requested name after both
  were trimmed and lowercased. The component does not meet this for a header
  that is the empty string. The theorem evaluates it on a file with the
  headers \<^verbatim>\<open>""\<close> and \<^verbatim>\<open>"Date"\<close> and the requested name \<^verbatim>\<open>""\<close>: the search
  finds the first header, the operation answers that the file does not
  contain the column and processes nothing, although the filter on that
  column keeps the record.
\<close>

theorem unnamed_column_not_resolved:
  "findHeader (toLowerCase (trim (dateColumn (january '''' unnamedColumn)))) ['''', ''Date''] = Some ''''
   \<and> toLowerCase (trim '''') = toLowerCase (trim (dateColumn (january '''' unnamedColumn)))
   \<and> error (processCSVFile (browser 0) unnamedColumn (january '''' unnamedColumn)) = CSVColumnMissing ''''
   \<and> error (processFile (browser 0) (january '''' unnamedColumn)) = CSVColumnMissing ''''
   \<and> totalRows (processFile (browser 0) (january '''' unnamedColumn)) = 1
   \<and> processedCount (processFile (browser 0) (january '''' unnamedColumn)) = 0
   \<and> skippedCount (processFile (browser 0) (january '''' unnamedColumn)) = 0
   \<and> length (saved (processFile (browser 0) (january '''' unnamedColumn))) = 0
   \<and> processedCount (transferToExcel (browser 0) [['''' \<mapsto> ''2024-01-15'', ''Date'' \<mapsto> ''x'']] ''''
        (january '''' unnamedColumn)) = 1
   \<and> length (saved (transferToExcel (browser 0) [['''' \<mapsto> ''2024-01-15'', ''Date'' \<mapsto> ''x'']] ''''
        (january '''' unnamedColumn))) = 1"
  by code_simp

section \<open>No row in range\<close>

text \<open>
  Claim C8. When the column is resolved and every record is skipped, the
  operation still reports the counts and the whole skip list, sets the
  message \<^verbatim>\<open>No valid data found within the specified date range.\<close>, and
  saves no file; no exception leaves the filter.
\<close>

theorem all_rows_skipped:
  assumes "papa f = PapaComplete jsonData headers"
    and "findHeader (toLowerCase (trim (dateColumn st))) headers = Some col"
    and "col \<noteq> []"
    and "list_all (skipRow rt col (rangeStart rt (startDate st)) (rangeEnd rt (endDate st))) jsonData"
  shows "processCSVFile rt f st =
           st\<lparr>totalRows := length jsonData, processedCount := 0, skippedCount := length jsonData,
              skippedRows := map skipEntry [0 ..< length jsonData], error := NoValidData,
              processing := False\<rparr>"
  by (simp add: processCSVFile_resolved [OF assms(1-3)] transferToExcel_eq all_skipped [OF assms(4)] Let_def)

theorem all_rows_skipped_witness:
  "papa scenarioE = PapaComplete
       [[''Name'' \<mapsto> ''a'', ''Date'' \<mapsto> ''2024-02-01''], [''Name'' \<mapsto> ''b'', ''Date'' \<mapsto> ''soon'']]
       [''Name'', ''Date'']
   \<and> findHeader (toLowerCase (trim '' date'')) [''Name'', ''Date''] = Some ''Date''
   \<and> list_all (skipRow (browser 0) ''Date'' (rangeStart (browser 0) ''2024-01-01'')
                  (rangeEnd (browser 0) ''2024-01-31''))
        [[''Name'' \<mapsto> ''a'', ''Date'' \<mapsto> ''2024-02-01''], [''Name'' \<mapsto> ''b'', ''Date'' \<mapsto> ''soon'']]
   \<and> processCSVFile (browser 0) scenarioE (january '' date'' scenarioE) =
        (january '' date'' scenarioE)
          \<lparr>totalRows := 2, processedCount := 0, skippedCount := 2,
           skippedRows := [skipEntry 0, skipEntry 1], error := NoValidData, processing := False\<rparr>"
proof -
  let ?rows = "[[''Name'' \<mapsto> ''a'', ''Date'' \<mapsto> ''2024-02-01''], [''Name'' \<mapsto> ''b'', ''Date'' \<mapsto> ''soon'']]"
  let ?st = "january '' date'' scenarioE"
  have h1: "papa scenarioE = PapaComplete ?rows [''Name'', ''Date'']"
    by (simp add: scenarioE_def csvOf_def)
  have d: "dateColumn ?st = '' date''" "startDate ?st = ''2024-01-01''" "endDate ?st = ''2024-01-31''"
    by (simp_all add: january_def initial_def)
  have h2: "findHeader (toLowerCase (trim '' date'')) [''Name'', ''Date''] = Some ''Date''"
    by code_simp
  have h3: "''Date'' \<noteq> []" by simp
  have h4: "list_all (skipRow (browser 0) ''Date'' (rangeStart (browser 0) ''2024-01-01'')
                  (rangeEnd (browser 0) ''2024-01-31'')) ?rows"
    by code_simp
  have "processCSVFile (browser 0) scenarioE ?st =
        ?st\<lparr>totalRows := length ?rows, processedCount := 0, skippedCount := length ?rows,
           skippedRows := map skipEntry [0 ..< length ?rows], error := NoValidData, processing := False\<rparr>"
    by (rule all_rows_skipped [OF h1 _ h3]) (simp_all only: d h2 h4)
  moreover have "[0 ..< length ?rows] = [0, 1]" by code_simp
  ultimately show ?thesis using h1 h2 h4 by simp
qed

section \<open>Decimal numbers and days\<close>

lemma digit_not_space: "isDigit c \<Longrightarrow> \<not> isWhiteSpace c"
  by (auto simp: isDigit_def isWhiteSpace_def)

lemma dropWhile_digits: "list_all isDigit s \<Longrightarrow> dropWhile isWhiteSpace s = s"
  by (cases s) (simp_all add: digit_not_space)

lemma trim_digits: "list_all isDigit s \<Longrightarrow> trim s = s"
proof -
  assume d: "list_all isDigit s"
  then have "list_all isDigit (rev s)" by (simp add: list_all_iff)
  then have "dropWhile isWhiteSpace (rev s) = rev s" by (rule dropWhile_digits)
  with d show ?thesis by (simp add: trim_def dropWhile_digits)
qed

lemma Number_digits: "isDigits s \<Longrightarrow> Number rt s = Fin (of_int (int (decimal s)))"
  by (simp add: Number_def isDigits_def trim_digits)

lemma ToInteger_of_int: "ToInteger (of_int k) = k"
  by (simp add: ToInteger_def)

lemma Day_times: "Day (k * msPerDay) = k"
  by (simp add: Day_def msPerDay_def)

lemma MakeDay_int:
  "MakeDay (Fin (of_int y)) (Fin (of_int (m - 1))) (Fin (of_int d)) =
     (if inTimeRange (civilDay y m 1 * msPerDay) then Some (civilDay y m d) else None)"
  by (simp add: ToInteger_of_int Day_times civilDay_def inTimeRange_def Let_def del: of_int_diff)

lemma MakeFullYear_int: "100 \<le> y \<Longrightarrow> MakeFullYear (Fin (of_int y)) = Fin (of_int y)"
  by (simp add: MakeFullYear_def ToInteger_of_int)

lemma newDateYMD_int:
  "100 \<le> y \<Longrightarrow>
   newDateYMD rt (Fin (of_int y)) (Fin (of_int (m - 1))) (Fin (of_int d)) =
     Date (if inTimeRange (civilDay y m 1 * msPerDay) \<and> inTimeRange (localMidnight rt (civilDay y m d))
           then Some (localMidnight rt (civilDay y m d)) else None)"
  by (simp add: newDateYMD_def MakeFullYear_int MakeDay_int MakeDate_def MakeTime_def UTC_def
      TimeClip_def localMidnight_def inTimeRange_def del: of_int_diff MakeDay.simps)

lemma parseDate_fallback:
  assumes inv: "\<not> isValidDate (newDate rt s)"
    and sp: "split (CHR ''/'') s = [ms, ds, ys]"
    and dg: "isDigits ms" "isDigits ds" "isDigits ys"
  shows "parseDate rt (Some s) =
     (let Y = int (decimal ys); y = (if Y < 100 then Y + 2000 else Y);
          M = int (decimal ms); D = int (decimal ds)
      in if inTimeRange (civilDay y M 1 * msPerDay) \<and> inTimeRange (localMidnight rt (civilDay y M D))
         then Some (Date (Some (localMidnight rt (civilDay y M D)))) else None)"
proof -
  have ne: "s \<noteq> []" using sp by auto
  define Y where "Y = int (decimal ys)"
  define y where "y = (if Y < 100 then Y + 2000 else Y)"
  define M where "M = int (decimal ms)"
  define D where "D = int (decimal ds)"
  have y100: "100 \<le> y" unfolding y_def Y_def by simp
  have yr: "(if num_lt (Number rt ys) (Fin 100) then num_add (Number rt ys) 2000 else Number rt ys)
            = Fin (of_int y)"
    using dg(3) by (simp add: Number_digits y_def Y_def)
  have mo: "num_add (Number rt ms) (- 1) = Fin (of_int (M - 1))"
    using dg(1) by (simp add: Number_digits M_def)
  have da: "Number rt ds = Fin (of_int D)"
    using dg(2) by (simp add: Number_digits D_def)
  have nd: "newDateYMD rt (Fin (of_int y)) (Fin (of_int (M - 1))) (Fin (of_int D)) =
     Date (if inTimeRange (civilDay y M 1 * msPerDay) \<and> inTimeRange (localMidnight rt (civilDay y M D))
           then Some (localMidnight rt (civilDay y M D)) else None)"
    by (rule newDateYMD_int [OF y100])
  have "parseDate rt (Some s) =
     (let d = newDateYMD rt (Fin (of_int y)) (Fin (of_int (M - 1))) (Fin (of_int D))
      in if isValidDate d then Some d else None)"
    using inv ne by (simp add: parseDate_def sp yr mo da Let_def del: of_int_diff)
  then have "parseDate rt (Some s) =
     (if inTimeRange (civilDay y M 1 * msPerDay) \<and> inTimeRange (localMidnight rt (civilDay y M D))
      then Some (Date (Some (localMidnight rt (civilDay y M D)))) else None)"
    unfolding Let_def nd by (simp add: isValidDate_def)
  then show ?thesis
    by (simp only: Let_def y_def Y_def M_def D_def)
qed

lemma decimal_snoc: "decimal (s @ [c]) = 10 * decimal s + digitVal c"
  by (simp add: decimal_def)

lemma digitVal_le: "isDigit c \<Longrightarrow> digitVal c \<le> 9"
  unfolding isDigit_def digitVal_def by linarith

lemma decimal_less: "list_all isDigit s \<Longrightarrow> decimal s < 10 ^ length s"
proof (induction s rule: rev_induct)
  case Nil
  show ?case by (simp add: decimal_def)
next
  case (snoc c s)
  then have "decimal s < 10 ^ length s" and "digitVal c \<le> 9"
    by (simp_all add: digitVal_le)
  then show ?case by (simp add: decimal_snoc)
qed

lemma decimal_le_9999: "list_all isDigit s \<Longrightarrow> length s \<le> 4 \<Longrightarrow> decimal s \<le> 9999"
proof -
  assume a: "list_all isDigit s" and l: "length s \<le> 4"
  have "(10::nat) ^ length s \<le> 10 ^ 4" using l by (intro power_increasing) simp_all
  with decimal_less [OF a] show ?thesis by simp
qed

lemma decimal_less_100: "list_all isDigit s \<Longrightarrow> length s < 3 \<Longrightarrow> decimal s < 100"
proof -
  assume a: "list_all isDigit s" and l: "length s < 3"
  have "(10::nat) ^ length s \<le> 10 ^ 2" using l by (intro power_increasing) simp_all
  with decimal_less [OF a] show ?thesis by simp
qed

lemma div_bounds: "0 < c \<Longrightarrow> c * (a div c) \<le> (a::int) \<and> a - c < c * (a div c)"
proof -
  assume c: "0 < c"
  have "a = c * (a div c) + a mod c" by simp
  moreover have "0 \<le> a mod c" "a mod c < c" using c by simp_all
  ultimately show ?thesis by linarith
qed

lemma DayFromYear_bounds:
  "0 \<le> y \<Longrightarrow> y \<le> 12000 \<Longrightarrow> - 720000 \<le> DayFromYear y \<and> DayFromYear y \<le> 3700000"
proof -
  assume y: "0 \<le> y" "y \<le> 12000"
  define p where "p = (y - 1969) div 4"
  define q where "q = (y - 1901) div 100"
  define r where "r = (y - 1601) div 400"
  have a: "4 * p \<le> y - 1969 \<and> y - 1969 - 4 < 4 * p"
    unfolding p_def by (rule div_bounds) simp
  have b: "100 * q \<le> y - 1901 \<and> y - 1901 - 100 < 100 * q"
    unfolding q_def by (rule div_bounds) simp
  have c: "400 * r \<le> y - 1601 \<and> y - 1601 - 400 < 400 * r"
    unfolding r_def by (rule div_bounds) simp
  have "DayFromYear y = 365 * y - 719050 + p - q + r"
    by (simp add: DayFromYear_def p_def q_def r_def)
  then show ?thesis using y a b c by (intro conjI) linarith+
qed

lemma monthStart_bounds:
  assumes "0 \<le> mn" "mn < 12"
  shows "0 \<le> monthStart y mn \<and> monthStart y mn \<le> 335"
proof -
  from assms have "mn = 0 \<or> mn = 1 \<or> mn = 2 \<or> mn = 3 \<or> mn = 4 \<or> mn = 5 \<or> mn = 6
      \<or> mn = 7 \<or> mn = 8 \<or> mn = 9 \<or> mn = 10 \<or> mn = 11"
    by arith
  then show ?thesis
    by (elim disjE) (simp_all add: monthStart_def)
qed

lemma civilDay_bounds:
  assumes "100 \<le> y" "y \<le> 9999" "0 \<le> m" "m \<le> 9999" "0 \<le> d" "d \<le> 9999"
  shows "- 730000 \<le> civilDay y m d \<and> civilDay y m d \<le> 3720000"
proof -
  define ym where "ym = y + (m - 1) div 12"
  have "0 \<le> ym \<and> ym \<le> 12000" using assms unfolding ym_def by linarith
  then have a: "- 720000 \<le> DayFromYear ym \<and> DayFromYear ym \<le> 3700000"
    by (simp add: DayFromYear_bounds)
  have b: "0 \<le> monthStart ym ((m - 1) mod 12) \<and> monthStart ym ((m - 1) mod 12) \<le> 335"
    by (rule monthStart_bounds) simp_all
  show ?thesis using a b assms unfolding civilDay_def ym_def [symmetric] by linarith
qed

lemma inTimeRange_days:
  "- 730000 \<le> k \<Longrightarrow> k \<le> 3720000 \<Longrightarrow> \<bar>z\<bar> \<le> 2 * msPerDay \<Longrightarrow> inTimeRange (k * msPerDay - z)"
  unfolding inTimeRange_def msPerDay_def maxTime_def by linarith

lemma isoDateOnly_shape:
  assumes "isoDateOnly s = Some t"
  shows "\<exists>k. t = k * msPerDay \<and> - 720000 \<le> k \<and> k \<le> 3720000"
proof -
  define y where "y = int (decimal (take 4 s))"
  define m where "m = int (decimal (take 2 (drop 5 s)))"
  define d where "d = int (decimal (drop 8 s))"
  from assms have dg: "list_all isDigit (take 4 s)"
    and rg: "1 \<le> m" "m \<le> 12" "1 \<le> d" "d \<le> DaysInMonth y (m - 1)"
    and t: "t = (DayFromYear y + monthStart y (m - 1) + d - 1) * msPerDay"
    unfolding isoDateOnly_def y_def m_def d_def
    by (auto simp: Let_def split: if_splits)
  have "decimal (take 4 s) \<le> 9999" using dg by (rule decimal_le_9999) simp
  then have y: "0 \<le> y" "y \<le> 9999" by (simp_all add: y_def)
  have a: "- 720000 \<le> DayFromYear y \<and> DayFromYear y \<le> 3700000"
    using y by (simp add: DayFromYear_bounds)
  have b: "0 \<le> monthStart y (m - 1) \<and> monthStart y (m - 1) \<le> 335"
    using rg by (intro monthStart_bounds) simp_all
  have "d \<le> 31" using rg(4) by (simp add: DaysInMonth_def split: if_splits)
  with a b rg t show ?thesis by (intro exI [of _ "DayFromYear y + monthStart y (m - 1) + d - 1"]) simp
qed

lemma newDate_iso:
  assumes "isoDateOnly s = Some t"
  shows "newDate rt s = Date (Some t)"
proof -
  from isoDateOnly_shape [OF assms] obtain k where k: "t = k * msPerDay" "- 720000 \<le> k" "k \<le> 3720000"
    by blast
  have "inTimeRange (k * msPerDay - 0)" using k by (intro inTimeRange_days) (simp_all add: msPerDay_def)
  then show ?thesis using assms k
    by (simp add: newDate_def Date_parse_def TimeClip_def inTimeRange_def)
qed

section \<open>The fallback of the normalizer\<close>

text \<open>
  Claim C3, as amended. The claim says that a slash-delimited value whose
  components form an impossible calendar date is unparseable. The validity
  check of the source only rejects a time value that is NaN, and
  \<^verbatim>\<open>new Date(year, month - 1, day)\<close> carries a month beyond 12 or a day beyond
  the end of the month over into the following months. So: when the general
  parser rejects the value and its three components are decimal numbers of at
  most four digits, the normalizer answers local midnight of the day that
  lies \<open>day - 1\<close> days after the first of the month counted from January of
  the year, never \<^verbatim>\<open>null\<close>; \<^verbatim>\<open>13/40/2024\<close> becomes 9 February 2025.
\<close>

theorem overflow_carried_over:
  assumes "\<not> isValidDate (newDate rt s)"
    and "split (CHR ''/'') s = [ms, ds, ys]"
    and "isDigits ms" "isDigits ds" "isDigits ys"
    and "length ms \<le> 4" "length ds \<le> 4" "length ys \<le> 4"
    and "\<bar>tza rt\<bar> \<le> msPerDay"
  shows "parseDate rt (Some s) =
           Some (Date (Some (localMidnight rt
             (civilDay (if int (decimal ys) < 100 then int (decimal ys) + 2000 else int (decimal ys))
                (int (decimal ms)) (int (decimal ds))))))"
proof -
  define y where "y = (if int (decimal ys) < 100 then int (decimal ys) + 2000 else int (decimal ys))"
  define M where "M = int (decimal ms)"
  define D where "D = int (decimal ds)"
  have "decimal ys \<le> 9999" "decimal ms \<le> 9999" "decimal ds \<le> 9999"
    using assms(3-8) by (simp_all add: isDigits_def decimal_le_9999)
  then have b: "100 \<le> y" "y \<le> 9999" "0 \<le> M" "M \<le> 9999" "0 \<le> D" "D \<le> 9999"
    by (simp_all add: y_def M_def D_def)
  have c1: "- 730000 \<le> civilDay y M 1 \<and> civilDay y M 1 \<le> 3720000"
    using b by (intro civilDay_bounds) simp_all
  have c2: "- 730000 \<le> civilDay y M D \<and> civilDay y M D \<le> 3720000"
    using b by (intro civilDay_bounds) simp_all
  have r1: "inTimeRange (civilDay y M 1 * msPerDay - 0)"
    using c1 by (intro inTimeRange_days) (simp_all add: msPerDay_def)
  have r2: "inTimeRange (civilDay y M D * msPerDay - tza rt)"
    using c2 assms(9) by (intro inTimeRange_days) simp_all
  have "parseDate rt (Some s) =
     (if inTimeRange (civilDay y M 1 * msPerDay) \<and> inTimeRange (localMidnight rt (civilDay y M D))
      then Some (Date (Some (localMidnight rt (civilDay y M D)))) else None)"
    using parseDate_fallback [OF assms(1-5)] by (simp only: Let_def y_def M_def D_def)
  with r1 r2 have "parseDate rt (Some s) = Some (Date (Some (localMidnight rt (civilDay y M D))))"
    by (simp add: localMidnight_def)
  then show ?thesis by (simp only: y_def M_def D_def)
qed

theorem overflow_carried_over_witness:
  "\<not> isValidDate (newDate (browser 0) ''13/40/2024'')
   \<and> split (CHR ''/'') ''13/40/2024'' = [''13'', ''40'', ''2024'']
   \<and> parseDate (browser 0) (Some ''13/40/2024'')
       = Some (Date (Some (localMidnight (browser 0) (civilDay 2024 13 40))))
   \<and> civilDay 2024 13 40 = civilDay 2025 2 9
   \<and> localMidnight (browser 0) (civilDay 2025 2 9) = 1739059200000"
proof -
  have h1: "\<not> isValidDate (newDate (browser 0) ''13/40/2024'')" by code_simp
  have h2: "split (CHR ''/'') ''13/40/2024'' = [''13'', ''40'', ''2024'']" by code_simp
  have h3: "isDigits ''13''" "isDigits ''40''" "isDigits ''2024''" by code_simp+
  have h4: "length ''13'' \<le> 4" "length ''40'' \<le> 4" "length ''2024'' \<le> 4" by simp_all
  have h5: "\<bar>tza (browser 0)\<bar> \<le> msPerDay" by code_simp
  have v: "(if int (decimal ''2024'') < 100 then int (decimal ''2024'') + 2000 else int (decimal ''2024'')) = 2024"
    "int (decimal ''13'') = 13" "int (decimal ''40'') = 40"
    by code_simp+
  have e: "civilDay 2024 13 40 = civilDay 2025 2 9"
    "localMidnight (browser 0) (civilDay 2025 2 9) = 1739059200000"
    by code_simp+
  show ?thesis
    using overflow_carried_over [OF h1 h2 h3 h4 h5] h1 h2 e unfolding v by simp
qed

text \<open>The claim as stated fails: \<^verbatim>\<open>13/40/2024\<close> is not unparseable.\<close>

theorem impossible_date_normalizes:
  "parseDate (browser 0) (Some ''13/40/2024'') \<noteq> None
   \<and> parseDate (browser 0) (Some ''13/40/2024'')
       = Some (Date (Some (localMidnight (browser 0) (civilDay 2025 2 9))))"
  by code_simp

text \<open>
  Claim C5, as amended. The slash-delimited parse is reached only when the
  general parser has rejected the value. Then, for three components that are
  decimal numbers and a year of fewer than three digits, the normalizer adds
  2000 to the year and answers local midnight of the day built from (year,
  month, day), month and day counted from 1, provided that day is a valid
  time value, and \<^verbatim>\<open>null\<close> otherwise.
\<close>

theorem two_digit_year:
  assumes "\<not> isValidDate (newDate rt s)"
    and "split (CHR ''/'') s = [ms, ds, ys]"
    and "isDigits ms" "isDigits ds" "isDigits ys"
    and "length ys < 3"
  shows "parseDate rt (Some s) =
     (if inTimeRange (civilDay (int (decimal ys) + 2000) (int (decimal ms)) 1 * msPerDay)
         \<and> inTimeRange (localMidnight rt (civilDay (int (decimal ys) + 2000) (int (decimal ms)) (int (decimal ds))))
      then Some (Date (Some (localMidnight rt
             (civilDay (int (decimal ys) + 2000) (int (decimal ms)) (int (decimal ds))))))
      else None)"
proof -
  have "decimal ys < 100"
    using assms(5,6) by (simp add: isDigits_def decimal_less_100)
  then have "(if int (decimal ys) < 100 then int (decimal ys) + 2000 else int (decimal ys))
             = int (decimal ys) + 2000"
    by simp
  with parseDate_fallback [OF assms(1-5)] show ?thesis
    by (simp only: Let_def)
qed

theorem two_digit_year_witness:
  "\<not> isValidDate (newDate (strict 0) ''3/5/23'')
   \<and> split (CHR ''/'') ''3/5/23'' = [''3'', ''5'', ''23'']
   \<and> parseDate (strict 0) (Some ''3/5/23'') = Some (Date (Some (localMidnight (strict 0) (civilDay 2023 3 5))))
   \<and> localMidnight (strict 0) (civilDay 2023 3 5) = 1677974400000
   \<and> \<not> isValidDate (newDate (browser 0) ''2/40/23'')
   \<and> parseDate (browser 0) (Some ''2/40/23'') = Some (Date (Some (localMidnight (browser 0) (civilDay 2023 2 40))))
   \<and> civilDay 2023 2 40 = civilDay 2023 3 12"
proof -
  have h1: "\<not> isValidDate (newDate (strict 0) ''3/5/23'')" by code_simp
  have h2: "split (CHR ''/'') ''3/5/23'' = [''3'', ''5'', ''23'']" by code_simp
  have h3: "isDigits ''3''" "isDigits ''5''" "isDigits ''23''" by code_simp+
  have h4: "length ''23'' < 3" by simp
  have v: "int (decimal ''23'') + 2000 = 2023" "int (decimal ''3'') = 3" "int (decimal ''5'') = 5"
    "int (decimal ''2'') = 2" "int (decimal ''40'') = 40"
    by code_simp+
  have r: "inTimeRange (civilDay 2023 3 1 * msPerDay)"
    "inTimeRange (localMidnight (strict 0) (civilDay 2023 3 5))"
    "localMidnight (strict 0) (civilDay 2023 3 5) = 1677974400000"
    by code_simp+
  have g1: "\<not> isValidDate (newDate (browser 0) ''2/40/23'')" by code_simp
  have g2: "split (CHR ''/'') ''2/40/23'' = [''2'', ''40'', ''23'']" by code_simp
  have g3: "isDigits ''2''" "isDigits ''40''" by code_simp+
  have q: "inTimeRange (civilDay 2023 2 1 * msPerDay)"
    "inTimeRange (localMidnight (browser 0) (civilDay 2023 2 40))"
    "civilDay 2023 2 40 = civilDay 2023 3 12"
    by code_simp+
  have a: "parseDate (strict 0) (Some ''3/5/23'') = Some (Date (Some (localMidnight (strict 0) (civilDay 2023 3 5))))"
    using two_digit_year [OF h1 h2 h3 h4] r unfolding v by simp
  have b: "parseDate (browser 0) (Some ''2/40/23'') = Some (Date (Some (localMidnight (browser 0) (civilDay 2023 2 40))))"
    using two_digit_year [OF g1 g2 g3 h3(3) h4] q(1,2) unfolding v by simp
  show ?thesis
    using h1 h2 r(3) g1 q(3) a b by simp
qed

text \<open>
  The claim as stated fails where the general parser accepts the value: in a
  browser \<^verbatim>\<open>3/5/99\<close> is 5 March 1999, not 2099.
\<close>

theorem two_digit_year_general_parser:
  "parseDate (browser 0) (Some ''3/5/99'')
     = Some (Date (Some (localMidnight (browser 0) (civilDay 1999 3 5))))
   \<and> parseDate (browser 0) (Some ''3/5/99'')
     \<noteq> Some (Date (Some (localMidnight (browser 0) (civilDay 2099 3 5))))"
  by code_simp

section \<open>The range of the filter\<close>

text \<open>
  The date inputs deliver \<^verbatim>\<open>YYYY-MM-DD\<close>, which \<^verbatim>\<open>new Date\<close> reads as midnight UTC,
  and \<^verbatim>\<open>setHours\<close> then works in local time. East of Greenwich (and on it) the
  two bounds are the first and the last millisecond of the chosen days in
  local time; west of Greenwich they are those of the days before.
\<close>

lemma Day_east: "0 \<le> z \<Longrightarrow> z < msPerDay \<Longrightarrow> Day (k * msPerDay + z) = k"
  by (simp add: Day_def msPerDay_def)

lemma Day_west: "- msPerDay \<le> z \<Longrightarrow> z < 0 \<Longrightarrow> Day (k * msPerDay + z) = k - 1"
proof -
  assume z: "- msPerDay \<le> z" "z < 0"
  define q where "q = z div 86400000"
  have "86400000 * q \<le> z \<and> z - 86400000 < 86400000 * q"
    unfolding q_def by (rule div_bounds) simp
  with z have "q = - 1" unfolding msPerDay_def by linarith
  then show ?thesis by (simp add: Day_def msPerDay_def q_def)
qed

lemma setHours_day:
  assumes "- 730000 \<le> j" "j \<le> 3720000" "\<bar>tza rt\<bar> \<le> msPerDay" "Day (LocalTime rt t) = j"
    and "0 \<le> MakeTime h m s milli" "MakeTime h m s milli < msPerDay"
  shows "setHours rt (Date (Some t)) h m s milli = Date (Some (j * msPerDay + MakeTime h m s milli - tza rt))"
proof -
  have "inTimeRange (j * msPerDay - (tza rt - MakeTime h m s milli))"
    using assms by (intro inTimeRange_days) (simp_all add: msPerDay_def)
  then show ?thesis using assms(4)
    by (simp add: setHours_def MakeDate_def UTC_def TimeClip_def inTimeRange_def Let_def algebra_simps)
qed

lemma range_east:
  assumes "0 \<le> tza rt" "tza rt < msPerDay" "isoDateOnly s = Some (k * msPerDay)"
  shows "rangeStart rt s = Date (Some (localMidnight rt k))"
    and "rangeEnd rt s = Date (Some (localEndOfDay rt k))"
proof -
  from isoDateOnly_shape [OF assms(3)] have k: "- 730000 \<le> k" "k \<le> 3720000"
    by (auto simp: msPerDay_def)
  have d: "Day (LocalTime rt (k * msPerDay)) = k"
    using assms(1,2) by (simp add: LocalTime_def Day_east)
  have z: "\<bar>tza rt\<bar> \<le> msPerDay" using assms(1,2) by simp
  show "rangeStart rt s = Date (Some (localMidnight rt k))"
    unfolding rangeStart_def newDate_iso [OF assms(3)]
    by (subst setHours_day [OF k z d]) (simp_all add: MakeTime_def msPerDay_def localMidnight_def)
  show "rangeEnd rt s = Date (Some (localEndOfDay rt k))"
    unfolding rangeEnd_def newDate_iso [OF assms(3)]
    by (subst setHours_day [OF k z d]) (simp_all add: MakeTime_def msPerDay_def localEndOfDay_def)
qed

lemma range_west:
  assumes "- msPerDay \<le> tza rt" "tza rt < 0" "isoDateOnly s = Some (k * msPerDay)"
  shows "rangeStart rt s = Date (Some (localMidnight rt (k - 1)))"
    and "rangeEnd rt s = Date (Some (localEndOfDay rt (k - 1)))"
proof -
  from isoDateOnly_shape [OF assms(3)] have "- 720000 \<le> k" "k \<le> 3720000"
    by (auto simp: msPerDay_def)
  then have k: "- 730000 \<le> k - 1" "k - 1 \<le> 3720000"
    by simp_all
  have d: "Day (LocalTime rt (k * msPerDay)) = k - 1"
    using assms(1,2) by (simp add: LocalTime_def Day_west)
  have z: "\<bar>tza rt\<bar> \<le> msPerDay" using assms(1,2) by simp
  show "rangeStart rt s = Date (Some (localMidnight rt (k - 1)))"
    unfolding rangeStart_def newDate_iso [OF assms(3)]
    by (subst setHours_day [OF k z d]) (simp_all add: MakeTime_def msPerDay_def localMidnight_def)
  show "rangeEnd rt s = Date (Some (localEndOfDay rt (k - 1)))"
    unfolding rangeEnd_def newDate_iso [OF assms(3)]
    by (subst setHours_day [OF k z d]) (simp_all add: MakeTime_def msPerDay_def localEndOfDay_def)
qed

lemma skipRow_east:
  assumes "0 \<le> tza rt" "tza rt < msPerDay"
    and "isoDateOnly startDay = Some (ks * msPerDay)" "isoDateOnly endDay = Some (ke * msPerDay)"
  shows "skipRow rt col (rangeStart rt startDay) (rangeEnd rt endDay) r \<longleftrightarrow>
     (case parseDate rt (r col) of
        None \<Rightarrow> True
      | Some d \<Rightarrow> (case valueOf d of
                     None \<Rightarrow> False
                   | Some t \<Rightarrow> t < localMidnight rt ks \<or> localEndOfDay rt ke < t))"
  by (simp add: skipRow_def range_east [OF assms(1,2,3)] range_east [OF assms(1,2,4)] date_lt_def
      split: option.splits)

lemma skipRow_west:
  assumes "- msPerDay \<le> tza rt" "tza rt < 0"
    and "isoDateOnly startDay = Some (ks * msPerDay)" "isoDateOnly endDay = Some (ke * msPerDay)"
  shows "skipRow rt col (rangeStart rt startDay) (rangeEnd rt endDay) r \<longleftrightarrow>
     (case parseDate rt (r col) of
        None \<Rightarrow> True
      | Some d \<Rightarrow> (case valueOf d of
                     None \<Rightarrow> False
                   | Some t \<Rightarrow> t < localMidnight rt (ks - 1) \<or> localEndOfDay rt (ke - 1) < t))"
  by (simp add: skipRow_def range_west [OF assms(1,2,3)] range_west [OF assms(1,2,4)] date_lt_def
      split: option.splits)

text \<open>
  Claim C1. A record is kept exactly when its cell normalizes to a date within
  [start day 00:00:00.000, end day 23:59:59.999], it is skipped otherwise, and
  the kept records keep their order. The partition and the order hold on
  every runtime (\<open>transferToExcel_eq\<close>), and the interval is the claimed one
  on and east of Greenwich (\<open>skipRow_east\<close>). West of Greenwich the component
  misses it by one day (\<open>skipRow_west\<close>). The theorem evaluates the component
  five hours west, with the range 2024-01-01 .. 2024-01-31: the row of
  31 January 2024 lies in the interval and is skipped, and the row of
  31 December 2023 lies before it and is kept.
\<close>

theorem last_day_skipped_west_of_Greenwich:
  "parseDate bogota (Some ''1/31/2024'') = Some (Date (Some (localMidnight bogota (civilDay 2024 1 31))))
   \<and> isoDateOnly ''2024-01-01'' = Some (civilDay 2024 1 1 * msPerDay)
   \<and> isoDateOnly ''2024-01-31'' = Some (civilDay 2024 1 31 * msPerDay)
   \<and> localMidnight bogota (civilDay 2024 1 1) \<le> localMidnight bogota (civilDay 2024 1 31)
   \<and> localMidnight bogota (civilDay 2024 1 31) \<le> localEndOfDay bogota (civilDay 2024 1 31)
   \<and> rangeStart bogota ''2024-01-01'' = Date (Some (localMidnight bogota (civilDay 2023 12 31)))
   \<and> rangeEnd bogota ''2024-01-31'' = Date (Some (localEndOfDay bogota (civilDay 2024 1 30)))
   \<and> processedCount (processFile bogota (january ''Date'' lastDay)) = 0
   \<and> map rowNumber (skippedRows (processFile bogota (january ''Date'' lastDay))) = [2]
   \<and> error (processFile bogota (january ''Date'' lastDay)) = NoValidData
   \<and> length (saved (processFile bogota (january ''Date'' lastDay))) = 0
   \<and> parseDate bogota (Some ''12/31/2023'') = Some (Date (Some (localMidnight bogota (civilDay 2023 12 31))))
   \<and> localMidnight bogota (civilDay 2023 12 31) < localMidnight bogota (civilDay 2024 1 1)
   \<and> processedCount (processFile bogota (january ''Date'' dayBefore)) = 1
   \<and> length (saved (processFile bogota (january ''Date'' dayBefore))) = 1"
  by code_simp

section \<open>An invalid range\<close>

text \<open>
  Claim C6. When the start day or the end day is missing, or the end day is
  before the start day, the operation stops at the validation with one of the
  two range messages: no file is decoded, no row is examined, all counts are
  zero, the skip list is empty and nothing is saved.
\<close>

theorem invalid_range:
  assumes "startDate st = [] \<or> endDate st = []
           \<or> (\<exists>a b. isoDateOnly (startDate st) = Some a \<and> isoDateOnly (endDate st) = Some b \<and> b < a)"
  shows "processFile rt st =
           (resetCountsAndData st)
             \<lparr>error := (if startDate st = [] \<or> endDate st = [] then SelectBothDates else EndBeforeStart)\<rparr>
       \<and> processedCount (processFile rt st) = 0 \<and> skippedCount (processFile rt st) = 0
       \<and> totalRows (processFile rt st) = 0 \<and> skippedRows (processFile rt st) = []
       \<and> saved (processFile rt st) = saved st \<and> alerts (processFile rt st) = alerts st"
proof (cases "startDate st = [] \<or> endDate st = []")
  case True
  then show ?thesis
    by (simp add: processFile_def validateDates_def resetCountsAndData_def)
next
  case False
  with assms obtain a b where ab: "isoDateOnly (startDate st) = Some a"
    "isoDateOnly (endDate st) = Some b" "b < a"
    by blast
  have "date_lt (newDate rt (endDate st)) (newDate rt (startDate st))"
    using ab by (simp add: newDate_iso date_lt_def)
  with False show ?thesis
    by (simp add: processFile_def validateDates_def resetCountsAndData_def)
qed

theorem invalid_range_witness:
  "isoDateOnly (startDate scenarioD) = Some 1706745600000
   \<and> isoDateOnly (endDate scenarioD) = Some 1706659200000
   \<and> (1706659200000 :: int) < 1706745600000
   \<and> processFile (browser 0) scenarioD = (resetCountsAndData scenarioD)\<lparr>error := EndBeforeStart\<rparr>
   \<and> processedCount (processFile (browser 0) scenarioD) = 0
   \<and> skippedCount (processFile (browser 0) scenarioD) = 0
   \<and> totalRows (processFile (browser 0) scenarioD) = 0
   \<and> skippedRows (processFile (browser 0) scenarioD) = []
   \<and> saved (processFile (browser 0) scenarioD) = []"
proof -
  have a: "isoDateOnly (startDate scenarioD) = Some 1706745600000"
    and b: "isoDateOnly (endDate scenarioD) = Some 1706659200000"
    by code_simp+
  have ne: "startDate scenarioD \<noteq> []" "endDate scenarioD \<noteq> []" "saved scenarioD = []"
    by (simp_all add: scenarioD_def january_def initial_def)
  have h: "startDate scenarioD = [] \<or> endDate scenarioD = []
           \<or> (\<exists>a b. isoDateOnly (startDate scenarioD) = Some a \<and> isoDateOnly (endDate scenarioD) = Some b \<and> b < a)"
    using a b by simp
  show ?thesis
    using invalid_range [OF h, of "browser 0"] a b ne by (simp add: resetCountsAndData_def)
qed

end
